theory Spec2Isabelle
  imports Main "HOL-Library.Word" "HOL-Library.Sublist"
begin

unbundle bit_operations_syntax

section \<open>Go values used by the pubsub package\<close>

text \<open>
  The package under study is \<^verbatim>\<open>pubsub\<close> (the reliable message-channel layer on
  top of Google Cloud Pub/Sub). A Go \<^verbatim>\<open>string\<close> is a sequence of bytes, which is
  what \<^typ>\<open>string\<close> is here: \<^term>\<open>length\<close> counts bytes and a code point
  beyond ASCII takes several characters. A run-time panic is a value of its own, so a
  function that can panic returns \<open>panic + 'a\<close>; \<open>LogPanic\<close> is the panic
  raised by the logger's \<^verbatim>\<open>Panic()\<close> level.
\<close>

datatype panic = NilDereference | IndexOutOfRange | SliceOutOfRange | LogPanic

type_synonym byte = "8 word"

definition byte :: "char \<Rightarrow> byte" where
  "byte c = of_char c"

subsection \<open>unicode/utf8\<close>

text \<open>
  \<^verbatim>\<open>utf8.ValidString\<close> and \<^verbatim>\<open>utf8.RuneStart\<close> of the standard library. \<open>first\<close>
  is the library's table of leading bytes: the size of the encoding and the range
  accepted for the second byte (\<open>None\<close> is the library's \<^verbatim>\<open>xx\<close>, an invalid
  leading byte). Bytes below \<^verbatim>\<open>0x80\<close> are handled before the table is read.
\<close>

definition first :: "byte \<Rightarrow> (nat \<times> byte \<times> byte) option" where
  "first b =
     (if 0xC2 \<le> b \<and> b \<le> 0xDF then Some (2, 0x80, 0xBF)
      else if b = 0xE0 then Some (3, 0xA0, 0xBF)
      else if 0xE1 \<le> b \<and> b \<le> 0xEC then Some (3, 0x80, 0xBF)
      else if b = 0xED then Some (3, 0x80, 0x9F)
      else if 0xEE \<le> b \<and> b \<le> 0xEF then Some (3, 0x80, 0xBF)
      else if b = 0xF0 then Some (4, 0x90, 0xBF)
      else if 0xF1 \<le> b \<and> b \<le> 0xF3 then Some (4, 0x80, 0xBF)
      else if b = 0xF4 then Some (4, 0x80, 0x8F)
      else None)"

fun ValidString :: "string \<Rightarrow> bool" where
  "ValidString [] = True"
| "ValidString (c # cs) =
     (if byte c < 0x80 then ValidString cs
      else case first (byte c) of
        None \<Rightarrow> False
      | Some (sz, lo, hi) \<Rightarrow>
          if length (c # cs) < sz then False
          else if byte (cs ! 0) < lo \<or> hi < byte (cs ! 0) then False
          else if sz = 2 then ValidString (drop 1 cs)
          else if byte (cs ! 1) < 0x80 \<or> 0xBF < byte (cs ! 1) then False
          else if sz = 3 then ValidString (drop 2 cs)
          else if byte (cs ! 2) < 0x80 \<or> 0xBF < byte (cs ! 2) then False
          else ValidString (drop 3 cs))"

definition RuneStart :: "byte \<Rightarrow> bool" where
  "RuneStart b = (b AND 0xC0 \<noteq> 0x80)"

subsection \<open>trimLeftBytes\<close>

text \<open>
  The loop \<^verbatim>\<open>for lastRune > 0 && !utf8.RuneStart(str[lastRune]) { lastRune-- }\<close>.
  Reading \<^verbatim>\<open>str[lastRune]\<close> at \<^verbatim>\<open>lastRune = len(str)\<close> is Go's index-out-of-range
  panic.
\<close>

fun lastRuneLoop :: "string \<Rightarrow> nat \<Rightarrow> panic + nat" where
  "lastRuneLoop str 0 = Inr 0"
| "lastRuneLoop str (Suc n) =
     (if length str \<le> Suc n then Inl IndexOutOfRange
      else if \<not> RuneStart (byte (str ! Suc n)) then lastRuneLoop str n
      else Inr (Suc n))"

text \<open>
  \<^verbatim>\<open>maxBytes\<close> is a Go \<^verbatim>\<open>int\<close>; slicing \<^verbatim>\<open>str[:maxBytes]\<close> with a negative
  bound panics. The upper bound of the slice is in range whenever the first test has
  failed.
\<close>

definition trimLeftBytes :: "string \<Rightarrow> int \<Rightarrow> panic + string" where
  "trimLeftBytes str maxBytes =
     (if int (length str) < maxBytes then Inr str
      else if maxBytes < 0 then Inl SliceOutOfRange
      else let res = take (nat maxBytes) str in
        if ValidString res then Inr res
        else case lastRuneLoop str (nat maxBytes) of
          Inl p \<Rightarrow> Inl p
        | Inr lastRune \<Rightarrow> Inr (take lastRune res))"

text \<open>The test string of \<^verbatim>\<open>TestStringTrimLeftBytes\<close>: three code points of three
  bytes each (U+65E5, U+672C, U+8A9E).\<close>

definition nihongo :: string where
  "nihongo = [CHR 0xE6, CHR 0x97, CHR 0xA5, CHR 0xE6, CHR 0x9C, CHR 0xAC,
              CHR 0xE8, CHR 0xAA, CHR 0x9E]"

subsection \<open>strconv\<close>

text \<open>
  \<^verbatim>\<open>strconv.ParseInt(val, 10, 64)\<close> and \<^verbatim>\<open>strconv.FormatInt(i, 10)\<close>. In base 10
  the only characters accepted after an optional sign are the decimal digits. The
  unsigned loop reports a range error as soon as the value leaves 64 bits.
\<close>

datatype NumError = ErrSyntax | ErrRange

definition digit :: "char \<Rightarrow> nat option" where
  "digit c = (if (48::nat) \<le> of_char c \<and> of_char c \<le> (57::nat)
              then Some (of_char c - 48) else None)"

fun ParseUint_loop :: "nat \<Rightarrow> string \<Rightarrow> NumError + nat" where
  "ParseUint_loop n [] = Inr n"
| "ParseUint_loop n (c # cs) =
     (case digit c of
        None \<Rightarrow> Inl ErrSyntax
      | Some d \<Rightarrow>
          if 2 ^ 64 \<le> n * 10 + d then Inl ErrRange
          else ParseUint_loop (n * 10 + d) cs)"

definition ParseUint :: "string \<Rightarrow> NumError + nat" where
  "ParseUint s = (if s = [] then Inl ErrSyntax else ParseUint_loop 0 s)"

definition ParseInt :: "string \<Rightarrow> NumError + int" where
  "ParseInt s =
     (if s = [] then Inl ErrSyntax
      else
        let neg = (hd s = CHR ''-'');
            s' = (if hd s = CHR ''+'' \<or> hd s = CHR ''-'' then tl s else s)
        in case ParseUint s' of
             Inl ErrSyntax \<Rightarrow> Inl ErrSyntax
           | Inl ErrRange \<Rightarrow> Inl ErrRange
           | Inr un \<Rightarrow>
               if \<not> neg \<and> 2 ^ 63 \<le> un then Inl ErrRange
               else if neg \<and> 2 ^ 63 < un then Inl ErrRange
               else Inr (if neg then - int un else int un))"

function digits :: "nat \<Rightarrow> string" where
  "digits n = (if n < 10 then [''0123456789'' ! n]
               else digits (n div 10) @ [''0123456789'' ! (n mod 10)])"
  by pat_completeness auto
termination
  by (relation "measure id") auto

declare digits.simps [simp del]

definition FormatInt :: "int \<Rightarrow> string" where
  "FormatInt i = (if i < 0 then CHR ''-'' # digits (nat (- i)) else digits (nat i))"

text \<open>\<^verbatim>\<open>i+1\<close> on an \<^verbatim>\<open>int64\<close> wraps around.\<close>

definition wrap64 :: "int \<Rightarrow> int" where
  "wrap64 x = (x + 2 ^ 63) mod 2 ^ 64 - 2 ^ 63"

section \<open>Errors\<close>

text \<open>
  Go error values as the package builds and receives them. \<open>New\<close> is
  \<^verbatim>\<open>errors.New\<close>; \<open>Errorf\<close> and \<open>Wrapf\<close> are \<^verbatim>\<open>errors.Errorf\<close> and
  \<^verbatim>\<open>errors.Wrapf\<close> of \<^verbatim>\<open>github.com/pkg/errors\<close>, kept with their format and their
  arguments (every argument the package passes is a string, or a topic printed by its
  resource name); \<open>StatusError\<close> is an error of the transport that carries a gRPC
  status. A value of type \<open>error option\<close> is a Go \<^verbatim>\<open>error\<close>, \<open>None\<close> being
  \<^verbatim>\<open>nil\<close>.
\<close>

datatype code =
    OK | Canceled | Unknown | InvalidArgument | DeadlineExceeded | NotFound
  | AlreadyExists | PermissionDenied | ResourceExhausted | FailedPrecondition
  | Aborted | OutOfRange | Unimplemented | Internal | Unavailable | DataLoss
  | Unauthenticated

datatype error =
    New string
  | Errorf string "string list"
  | Wrapf error string "string list"
  | StatusError code string

definition ErrClosed :: error where
  "ErrClosed = New ''pubsub Service has been closed''"

definition defaultDeadLetterName :: string where
  "defaultDeadLetterName = ''dead-letter''"

text \<open>\<^verbatim>\<open>errors.Cause\<close>/\<^verbatim>\<open>Unwrap\<close>: the error a wrapper was built around.\<close>

fun Unwrap :: "error \<Rightarrow> error option" where
  "Unwrap (Wrapf cause _ _) = Some cause"
| "Unwrap _ = None"

text \<open>
  \<^verbatim>\<open>status.FromError\<close> on a non-nil error: the status code and \<^verbatim>\<open>ok = true\<close> for an
  error that carries a gRPC status; \<^verbatim>\<open>codes.Unknown\<close> and \<^verbatim>\<open>ok = false\<close> for every
  other error.
\<close>

fun FromError :: "error \<Rightarrow> code \<times> bool" where
  "FromError (StatusError c _) = (c, True)"
| "FromError _ = (Unknown, False)"

definition translateError :: "error option \<Rightarrow> string \<Rightarrow> string list \<Rightarrow> error option" where
  "translateError err wrapMsg args =
     (case err of
        Some e \<Rightarrow>
          (let (st, ok) = FromError e in
           if \<not> ok \<or> st = Canceled then Some ErrClosed
           else Some (Wrapf e wrapMsg args))
      | None \<Rightarrow> None)"

section \<open>Data model\<close>

text \<open>
  \<^verbatim>\<open>time.Duration\<close> counts nanoseconds; instants are nanoseconds as well.
  \<^verbatim>\<open>Time.Sub\<close> saturates at the largest and smallest duration.
\<close>

definition Minute :: int where
  "Minute = 60 * 1000000000"

definition Sub :: "int \<Rightarrow> int \<Rightarrow> int" where
  "Sub t u = (if t - u > 2 ^ 63 - 1 then 2 ^ 63 - 1
              else if t - u < - (2 ^ 63) then - (2 ^ 63) else t - u)"

record Channel =
  ID :: string
  TopicID :: string
  SubscriptionID :: string
  MaxRetryAge :: int

text \<open>
  The raw \<^verbatim>\<open>gpubsub.Message\<close>. Its \<^verbatim>\<open>ID\<close> field is \<open>MessageID\<close> here, since
  \<open>ID\<close> is the channel's. \<open>Attributes\<close> is a Go map, a reference: the address of
  the map in the store, \<open>None\<close> for the nil map.
\<close>

record Message =
  MessageID :: string
  Data :: string
  Attributes :: "nat option"
  PublishTime :: int

text \<open>Calls made on the transport, in the order they are made.\<close>

datatype event =
    Published string string nat
  | Acked string
  | Nacked string
  | SubscriptionExists string
  | SubscriptionDelete string
  | TopicExists string
  | TopicDelete string
  | ReceiveStarted string

text \<open>
  What one call of \<^verbatim>\<open>Subscription.Receive\<close> observes, one item at a time: a message
  handed to the callback, the end of the caller's context (\<^verbatim>\<open>Receive\<close> then returns
  nil), or a failure of the transport (\<^verbatim>\<open>Receive\<close> returns the error). A script that
  runs out stands for a call that waits forever.
\<close>

datatype delivery = Deliver Message | ContextDone | ReceiveError error

text \<open>
  The \<^verbatim>\<open>gpubsub.Client\<close>, as the answers the server gives during one run:
  \<open>publish\<close> is the result of \<^verbatim>\<open>Topic.Publish(...).Get(ctx)\<close> for a topic name, a
  payload and the attributes sent; the four others are \<^verbatim>\<open>Exists\<close> and \<^verbatim>\<open>Delete\<close> on
  a subscription and on a topic; \<open>receive\<close> is the script of a subscription.
\<close>

record Client =
  publish :: "string \<Rightarrow> string \<Rightarrow> (string \<rightharpoonup> string) \<Rightarrow> error option"
  subscriptionExists :: "string \<Rightarrow> error + bool"
  subscriptionDelete :: "string \<Rightarrow> error option"
  topicExists :: "string \<Rightarrow> error + bool"
  topicDelete :: "string \<Rightarrow> error option"
  receive :: "string \<Rightarrow> delivery list"

text \<open>
  \<^verbatim>\<open>Service\<close>. \<open>Channels\<close> is \<^verbatim>\<open>map[string]*Channel\<close> and \<open>DeadLetterChannel\<close> a
  \<^verbatim>\<open>*Channel\<close>: both hold addresses of channel objects in the store. \<open>Client\<close> is
  nil until \<^verbatim>\<open>Configure\<close> has connected. The logger has no effect on any result and
  is left out; the options are an argument of \<open>Configure\<close>. Only the options write to
  \<open>Channels\<close>, and only a service made by \<^verbatim>\<open>NewPubSubService\<close> has options, so the
  map is allocated whenever it is written.
\<close>

record Service =
  Client :: "Client option"
  Channels :: "string \<rightharpoonup> nat"
  DeadLetterChannel :: "nat option"
  projectID :: string

record RichMessage =
  Message :: "Message option"
  Service :: "Service option"
  Channel :: "nat option"

text \<open>
  The store: the channel objects and the attribute maps, by address; the next free
  address for a map (\<^verbatim>\<open>make\<close> and map literals allocate there); the clock; and the
  calls made on the transport so far.
\<close>

record world =
  chans :: "nat \<Rightarrow> Channel"
  attrMaps :: "nat \<Rightarrow> (string \<rightharpoonup> string)"
  nextMap :: nat
  now :: int
  trace :: "event list"

definition emit :: "event \<Rightarrow> world \<Rightarrow> world" where
  "emit e w = w\<lparr>trace := trace w @ [e]\<rparr>"

text \<open>\<^verbatim>\<open>m[k] = v\<close> on the map at address \<open>a\<close>.\<close>

definition setAttr :: "nat \<Rightarrow> string \<Rightarrow> string \<Rightarrow> world \<Rightarrow> world" where
  "setAttr a k v w = w\<lparr>attrMaps := (attrMaps w)(a := (attrMaps w a)(k \<mapsto> v))\<rparr>"

text \<open>\<^verbatim>\<open>make(map[string]string)\<close>: a fresh empty map.\<close>

definition makeMap :: "world \<Rightarrow> nat \<times> world" where
  "makeMap w = (nextMap w, w\<lparr>attrMaps := (attrMaps w)(nextMap w := Map.empty),
                              nextMap := Suc (nextMap w)\<rparr>)"

text \<open>Reading a map through a reference; the nil map reads as empty.\<close>

definition readMap :: "world \<Rightarrow> nat option \<Rightarrow> (string \<rightharpoonup> string)" where
  "readMap w r = (case r of None \<Rightarrow> Map.empty | Some a \<Rightarrow> attrMaps w a)"

text \<open>\<^verbatim>\<open>time.Since(t)\<close>.\<close>

definition Since :: "world \<Rightarrow> int \<Rightarrow> int" where
  "Since w t = Sub (now w) t"

text \<open>\<^verbatim>\<open>Topic.String()\<close>, which \<^verbatim>\<open>%q\<close> prints for a topic.\<close>

definition topicName :: "Service \<Rightarrow> string \<Rightarrow> string" where
  "topicName s topicID = ''projects/'' @ projectID s @ ''/topics/'' @ topicID"

section \<open>Registering channels\<close>

definition NewPubSubService :: "string \<Rightarrow> Service" where
  "NewPubSubService pid =
     \<lparr>Client = None, Channels = Map.empty, DeadLetterChannel = None, projectID = pid\<rparr>"

definition addChannel :: "Service \<Rightarrow> nat \<Rightarrow> world \<Rightarrow> Service" where
  "addChannel s ch w = s\<lparr>Channels := (Channels s)(ID (chans w ch) \<mapsto> ch)\<rparr>"

text \<open>
  An option is a closure over a \<^verbatim>\<open>*Channel\<close> that is run on the service by
  \<^verbatim>\<open>Configure\<close>. The channel is given by its address (\<open>None\<close> is a nil pointer) and
  is written in place, so every holder of the address sees the change.
\<close>

type_synonym Option = "Service \<Rightarrow> world \<Rightarrow> (panic + Service) \<times> world"

definition WithChannel :: "nat option \<Rightarrow> Option" where
  "WithChannel ch cl w =
     (case ch of
        None \<Rightarrow> (Inl NilDereference, w)
      | Some c \<Rightarrow>
          let w = (if MaxRetryAge (chans w c) = 0
                   then w\<lparr>chans := (chans w)(c := (chans w c)\<lparr>MaxRetryAge := Minute * 2\<rparr>)\<rparr>
                   else w)
          in (Inr (addChannel cl c w), w))"

definition WithDeadLetter :: "nat option \<Rightarrow> Option" where
  "WithDeadLetter ch cl w =
     (case ch of
        None \<Rightarrow> (Inl NilDereference, w)
      | Some c \<Rightarrow>
          let w = (if ID (chans w c) = []
                   then w\<lparr>chans := (chans w)(c := (chans w c)\<lparr>ID := defaultDeadLetterName\<rparr>)\<rparr>
                   else w)
          in (Inr ((addChannel cl c w)\<lparr>DeadLetterChannel := Some c\<rparr>), w))"

text \<open>The loop \<^verbatim>\<open>for _, option := range s.options { option(s) }\<close>.\<close>

fun applyOptions :: "Option list \<Rightarrow> Service \<Rightarrow> world \<Rightarrow> (panic + Service) \<times> world" where
  "applyOptions [] s w = (Inr s, w)"
| "applyOptions (option # options) s w =
     (case option s w of
        (Inl p, w') \<Rightarrow> (Inl p, w')
      | (Inr s', w') \<Rightarrow> applyOptions options s' w')"

text \<open>\<open>connect\<close> is the result of \<^verbatim>\<open>gpubsub.NewClient\<close>.\<close>

definition Configure :: "Option list \<Rightarrow> error + Client \<Rightarrow> Service \<Rightarrow> world \<Rightarrow> (panic + Service) \<times> world" where
  "Configure options connect s w =
     (case applyOptions options s w of
        (Inl p, w') \<Rightarrow> (Inl p, w')
      | (Inr s', w') \<Rightarrow>
          (case connect of
             Inl err \<Rightarrow> (Inl LogPanic, w')
           | Inr client \<Rightarrow> (Inr (s'\<lparr>Client := Some client\<rparr>), w')))"

text \<open>\<^verbatim>\<open>Service.Channel\<close>: a plain map read; \<open>None\<close> is the nil pointer.\<close>

definition Service_Channel :: "Service \<Rightarrow> string \<Rightarrow> nat option" where
  "Service_Channel s channelID = Channels s channelID"

section \<open>Dead-lettering and the retry policy\<close>

text \<open>
  \<^verbatim>\<open>DeadLetter\<close> calls nothing of \<open>cause\<close> but \<^verbatim>\<open>cause.Error()\<close>, so the cause is
  given by the text it renders; \<open>None\<close> is the nil error. The body is in three parts,
  in the order of the source and each with the panics it can raise: the counter
  (\<^verbatim>\<open>if val, ok := newMap["deadLetterCount"]; ok { ... } else { ... }\<close>), the copy of
  the attributes with the additional ones (from \<^verbatim>\<open>make\<close> to the counter), and the
  function itself, which tests the dead-letter channel before anything else and
  publishes after the copy.
\<close>

definition bumpDeadLetterCount :: "nat \<Rightarrow> world \<Rightarrow> world" where
  "bumpDeadLetterCount newMap w =
     (case attrMaps w newMap ''deadLetterCount'' of
        Some val \<Rightarrow>
          (case ParseInt val of
             Inr i \<Rightarrow> setAttr newMap ''deadLetterCount'' (FormatInt (wrap64 (i + 1))) w
           | Inl _ \<Rightarrow> w)
      | None \<Rightarrow> setAttr newMap ''deadLetterCount'' ''1'' w)"

definition copyAttributes :: "RichMessage \<Rightarrow> string option \<Rightarrow> world \<Rightarrow> (panic + nat) \<times> world" where
  "copyAttributes msg cause w =
     (let (newMap, w) = makeMap w in
     (case Message msg of None \<Rightarrow> (Inl NilDereference, w) | Some m \<Rightarrow>
      let w = w\<lparr>attrMaps := (attrMaps w)(newMap := attrMaps w newMap ++ readMap w (Attributes m))\<rparr>;
          w = setAttr newMap ''originalMessageID'' (MessageID m) w in
     (case Channel msg of None \<Rightarrow> (Inl NilDereference, w) | Some c \<Rightarrow>
      let w = setAttr newMap ''originalTopicID'' (TopicID (chans w c)) w;
          w = setAttr newMap ''originalSubscriptionID'' (SubscriptionID (chans w c)) w in
     (case cause of None \<Rightarrow> (Inl NilDereference, w) | Some errText \<Rightarrow>
     (case trimLeftBytes errText 1024 of Inl p \<Rightarrow> (Inl p, w) | Inr trimmed \<Rightarrow>
      let w = setAttr newMap ''error'' trimmed w
      in (Inr newMap, bumpDeadLetterCount newMap w))))))"

definition DeadLetter :: "RichMessage \<Rightarrow> string option \<Rightarrow> world \<Rightarrow> (panic + error option) \<times> world" where
  "DeadLetter msg cause w =
     (case Service msg of None \<Rightarrow> (Inl NilDereference, w) | Some s \<Rightarrow>
     (case DeadLetterChannel s of
        None \<Rightarrow> (Inr (Some (New ''no deadletter channel configured'')), w)
      | Some dl \<Rightarrow>
     (case copyAttributes msg cause w of (Inl p, w) \<Rightarrow> (Inl p, w) | (Inr newMap, w) \<Rightarrow>
     (case Client s of None \<Rightarrow> (Inl NilDereference, w) | Some client \<Rightarrow>
     (case Message msg of None \<Rightarrow> (Inl NilDereference, w) | Some m \<Rightarrow>
      let topic = TopicID (chans w dl);
          w = emit (Published topic (Data m) newMap) w in
     (case publish client topic (Data m) (attrMaps w newMap) of
        Some err \<Rightarrow>
          (Inr (Some (Wrapf err ''failed to sent message to dead letter topic %q''
                   [topicName s topic])),
           emit (Nacked (MessageID m)) w)
      | None \<Rightarrow> (Inr None, emit (Acked (MessageID m)) w)))))))"

definition RetryableError :: "RichMessage \<Rightarrow> string option \<Rightarrow> world \<Rightarrow> (panic + error option) \<times> world" where
  "RetryableError msg cause w =
     (case Message msg of None \<Rightarrow> (Inl NilDereference, w) | Some m \<Rightarrow>
     (case Channel msg of None \<Rightarrow> (Inl NilDereference, w) | Some c \<Rightarrow>
      if Since w (PublishTime m) > MaxRetryAge (chans w c) then DeadLetter msg cause w
      else (Inr None, emit (Nacked (MessageID m)) w)))"

section \<open>Deleting, receiving and publishing\<close>

text \<open>The two halves of \<^verbatim>\<open>DeleteChannel\<close>: the subscription, then the topic.\<close>

definition deleteSubscription :: "Service \<Rightarrow> string \<Rightarrow> world \<Rightarrow> (panic + error option) \<times> world" where
  "deleteSubscription s subID w =
     (case Client s of None \<Rightarrow> (Inl NilDereference, w) | Some client \<Rightarrow>
      let w = emit (SubscriptionExists subID) w in
     (case subscriptionExists client subID of
        Inl err \<Rightarrow> (Inr (translateError (Some err) ''failed to retrieve subscription %q'' [subID]), w)
      | Inr exists \<Rightarrow>
          if exists then
            (let w = emit (SubscriptionDelete subID) w in
             (case subscriptionDelete client subID of
                Some err \<Rightarrow> (Inr (translateError (Some err) ''failed to delete subscription %q'' [subID]), w)
              | None \<Rightarrow> (Inr None, w)))
          else (Inr None, w)))"

definition deleteTopic :: "Service \<Rightarrow> string \<Rightarrow> world \<Rightarrow> (panic + error option) \<times> world" where
  "deleteTopic s topicID w =
     (case Client s of None \<Rightarrow> (Inl NilDereference, w) | Some client \<Rightarrow>
      let w = emit (TopicExists topicID) w in
     (case topicExists client topicID of
        Inl err \<Rightarrow> (Inr (translateError (Some err) ''failed to retrieve topic %q'' [topicID]), w)
      | Inr exists \<Rightarrow>
          if exists then
            (let w = emit (TopicDelete topicID) w in
             (case topicDelete client topicID of
                Some err \<Rightarrow> (Inr (translateError (Some err) ''failed to delete topic %q'' [topicID]), w)
              | None \<Rightarrow> (Inr None, w)))
          else (Inr None, w)))"

definition DeleteChannel :: "Service \<Rightarrow> string \<Rightarrow> world \<Rightarrow> (panic + error option) \<times> world" where
  "DeleteChannel s channel w =
     (case Channels s channel of
        None \<Rightarrow> (Inr (Some (Errorf ''channel %q not found'' [channel])), w)
      | Some c \<Rightarrow>
          (case (if SubscriptionID (chans w c) \<noteq> []
                 then deleteSubscription s (SubscriptionID (chans w c)) w
                 else (Inr None, w)) of
             (Inr None, w') \<Rightarrow> deleteTopic s (TopicID (chans w' c)) w'
           | (r, w') \<Rightarrow> (r, w')))"

text \<open>
  The receive loop of \<^verbatim>\<open>Subscription.Receive\<close> with the callback of \<^verbatim>\<open>Receive\<close>,
  deliveries handled one at a time. The handler \<open>f\<close> is a function on the store.
  \<open>None\<close> is a call that never returns.
\<close>

fun Receive_loop :: "(RichMessage \<Rightarrow> world \<Rightarrow> world) \<Rightarrow> Service \<Rightarrow> nat \<Rightarrow> delivery list \<Rightarrow> world
    \<Rightarrow> (error option \<times> world) option" where
  "Receive_loop f s c [] w = None"
| "Receive_loop f s c (ContextDone # ds) w = Some (None, w)"
| "Receive_loop f s c (ReceiveError e # ds) w = Some (Some e, w)"
| "Receive_loop f s c (Deliver m # ds) w =
     Receive_loop f s c ds (f \<lparr>Message = Some m, Service = Some s, Channel = Some c\<rparr> w)"

definition Receive :: "Service \<Rightarrow> string \<Rightarrow> (RichMessage \<Rightarrow> world \<Rightarrow> world) \<Rightarrow> world
    \<Rightarrow> ((panic + error option) \<times> world) option" where
  "Receive s channel f w =
     (case Channels s channel of
        None \<Rightarrow> Some (Inr (Some (Errorf ''channel %q not found'' [channel])), w)
      | Some c \<Rightarrow>
          if SubscriptionID (chans w c) = []
          then Some (Inr (Some (Errorf ''channel %q does not have a subscription'' [channel])), w)
          else
            (case Client s of None \<Rightarrow> Some (Inl NilDereference, w) | Some client \<Rightarrow>
            (case Receive_loop f s c (receive client (SubscriptionID (chans w c)))
                    (emit (ReceiveStarted (SubscriptionID (chans w c))) w) of
               None \<Rightarrow> None
             | Some (err, w') \<Rightarrow>
                 Some (Inr (translateError err ''receiving message from subscription %q failed''
                              [SubscriptionID (chans w' c)]), w'))))"

text \<open>
  The same loop with the callback of \<^verbatim>\<open>ReceiveNr\<close>: acknowledge, append, and cancel
  the inner context once \<^verbatim>\<open>len(msgs) >= nrOfMessages\<close>, after which \<^verbatim>\<open>Receive\<close>
  returns nil.
\<close>

fun ReceiveNr_loop :: "Service \<Rightarrow> nat \<Rightarrow> int \<Rightarrow> delivery list \<Rightarrow> RichMessage list \<Rightarrow> world
    \<Rightarrow> ((RichMessage list \<times> error option) \<times> world) option" where
  "ReceiveNr_loop s c nrOfMessages [] msgs w = None"
| "ReceiveNr_loop s c nrOfMessages (ContextDone # ds) msgs w = Some ((msgs, None), w)"
| "ReceiveNr_loop s c nrOfMessages (ReceiveError e # ds) msgs w = Some ((msgs, Some e), w)"
| "ReceiveNr_loop s c nrOfMessages (Deliver m # ds) msgs w =
     (let w = emit (Acked (MessageID m)) w;
          msgs = msgs @ [\<lparr>Message = Some m, Service = Some s, Channel = Some c\<rparr>]
      in if int (length msgs) \<ge> nrOfMessages then Some ((msgs, None), w)
         else ReceiveNr_loop s c nrOfMessages ds msgs w)"

definition ReceiveNr :: "Service \<Rightarrow> string \<Rightarrow> int \<Rightarrow> world
    \<Rightarrow> ((panic + RichMessage list \<times> error option) \<times> world) option" where
  "ReceiveNr s channel nrOfMessages w =
     (case Channels s channel of
        None \<Rightarrow> Some (Inr ([], Some (Errorf ''channel %q not found'' [channel])), w)
      | Some c \<Rightarrow>
          (case Client s of None \<Rightarrow> Some (Inl NilDereference, w) | Some client \<Rightarrow>
          (case ReceiveNr_loop s c nrOfMessages (receive client (SubscriptionID (chans w c))) []
                  (emit (ReceiveStarted (SubscriptionID (chans w c))) w) of
             None \<Rightarrow> None
           | Some ((msgs, Some err), w') \<Rightarrow>
               Some (Inr ([], translateError (Some err)
                       ''receiving message from subscription %q failed''
                       [SubscriptionID (chans w' c)]), w')
           | Some ((msgs, None), w') \<Rightarrow> Some (Inr (msgs, None), w'))))"

text \<open>
  \<^verbatim>\<open>PublishEvent\<close>. The payload is given by what \<^verbatim>\<open>json.Marshal\<close> returns for it.
\<close>

definition PublishEvent :: "Service \<Rightarrow> string \<Rightarrow> string \<Rightarrow> error + string \<Rightarrow> world
    \<Rightarrow> (panic + error option) \<times> world" where
  "PublishEvent s channel eventName payload w =
     (case Channels s channel of
        None \<Rightarrow> (Inr (Some (Errorf ''channel %q not found'' [channel])), w)
      | Some c \<Rightarrow>
          (case payload of
             Inl err \<Rightarrow>
               (Inr (Some (Wrapf err ''failed to marshal payload for event %q on t %q''
                        [eventName, TopicID (chans w c)])), w)
           | Inr bytes \<Rightarrow>
               (case Client s of None \<Rightarrow> (Inl NilDereference, w) | Some client \<Rightarrow>
                let (attrs, w) = makeMap w;
                    w = setAttr attrs ''event'' eventName w;
                    w = emit (Published (TopicID (chans w c)) bytes attrs) w
                in (case publish client (TopicID (chans w c)) bytes (attrMaps w attrs) of
                      Some err \<Rightarrow>
                        (Inr (translateError (Some err) ''could not publish event %q to t %q''
                                [eventName, TopicID (chans w c)]), w)
                    | None \<Rightarrow> (Inr None, w)))))"

section \<open>The fixture of the tests\<close>

text \<open>
  The service of \<^verbatim>\<open>newPubSubEmulatorService\<close> after its options have run: the
  channel \<^verbatim>\<open>test-channel\<close> at address 0, the dead-letter channel at address 1 (present
  in the service when \<open>deadLetter\<close> is set) and the channel without a subscription at
  address 2. The client answers every publish with \<open>outcome\<close> and plays \<open>script\<close>
  on every subscription. In the store the attribute map of the test message lies at
  address 0 and the clock reads \<open>t\<close>. The channels registered by \<^verbatim>\<open>WithChannel\<close>
  have the default \<open>MaxRetryAge\<close>; the dead-letter channel has the zero it was
  given.
\<close>

definition testChannels :: "nat \<Rightarrow> Channel" where
  "testChannels a =
     (if a = 0 then \<lparr>ID = ''test-channel'', TopicID = ''test-topic'',
                      SubscriptionID = ''test-subscription'', MaxRetryAge = Minute * 2\<rparr>
      else if a = 1 then \<lparr>ID = ''dead-letter'', TopicID = ''dead-letter-topic'',
                      SubscriptionID = ''dead-letter-subscription'', MaxRetryAge = 0\<rparr>
      else \<lparr>ID = ''without-subscription'', TopicID = ''test-topic-without-subscription'',
             SubscriptionID = [], MaxRetryAge = Minute * 2\<rparr>)"

definition testClient :: "error option \<Rightarrow> delivery list \<Rightarrow> Client" where
  "testClient outcome script =
     \<lparr>publish = (\<lambda>topic data attrs. outcome),
      subscriptionExists = (\<lambda>sub. Inr True), subscriptionDelete = (\<lambda>sub. None),
      topicExists = (\<lambda>topic. Inr True), topicDelete = (\<lambda>topic. None),
      receive = (\<lambda>sub. script)\<rparr>"

definition testService :: "error option \<Rightarrow> delivery list \<Rightarrow> bool \<Rightarrow> Service" where
  "testService outcome script deadLetter =
     \<lparr>Client = Some (testClient outcome script),
      Channels = (if deadLetter
                  then [''test-channel'' \<mapsto> 0, ''without-subscription'' \<mapsto> 2, ''dead-letter'' \<mapsto> 1]
                  else [''test-channel'' \<mapsto> 0, ''without-subscription'' \<mapsto> 2]),
      DeadLetterChannel = (if deadLetter then Some 1 else None),
      projectID = ''metrix-io''\<rparr>"

definition testWorld :: "(string \<rightharpoonup> string) \<Rightarrow> int \<Rightarrow> world" where
  "testWorld attrs t =
     \<lparr>chans = testChannels, attrMaps = (\<lambda>a. if a = 0 then attrs else Map.empty),
      nextMap = 1, now = t, trace = []\<rparr>"

definition testMessage :: Message where
  "testMessage = \<lparr>MessageID = ''1'', Data = ''test message'', Attributes = Some 0, PublishTime = 0\<rparr>"

definition testRich :: "error option \<Rightarrow> bool \<Rightarrow> RichMessage" where
  "testRich outcome deadLetter =
     \<lparr>Message = Some testMessage, Service = Some (testService outcome [] deadLetter),
      Channel = Some 0\<rparr>"

text \<open>An error of the server, for a publish that fails.\<close>

definition unavailable :: error where
  "unavailable = StatusError Unavailable ''connection refused''"

text \<open>A second message, and the store before the options of the fixture have run:
  no channel has a \<open>MaxRetryAge\<close> and the dead-letter channel has no \<open>ID\<close>.\<close>

definition testMessage2 :: Message where
  "testMessage2 = \<lparr>MessageID = ''2'', Data = ''test message2'', Attributes = None, PublishTime = 0\<rparr>"

definition unregistered :: world where
  "unregistered =
     \<lparr>chans = (\<lambda>a. if a = 0 then \<lparr>ID = ''test-channel'', TopicID = ''test-topic'',
                                     SubscriptionID = ''test-subscription'', MaxRetryAge = 0\<rparr>
                     else if a = 1 then \<lparr>ID = [], TopicID = ''dead-letter-topic'',
                                     SubscriptionID = ''dead-letter-subscription'', MaxRetryAge = 0\<rparr>
                     else \<lparr>ID = ''without-subscription'', TopicID = ''test-topic-without-subscription'',
                            SubscriptionID = [], MaxRetryAge = 0\<rparr>),
      attrMaps = (\<lambda>a. Map.empty), nextMap = 0, now = 0, trace = []\<rparr>"

section \<open>Truncation of the error text\<close>

lemma lastRuneLoop_le: "lastRuneLoop str n = Inr k \<Longrightarrow> k \<le> n"
  by (induction n) (auto split: if_splits)

lemma lastRuneLoop_in_range: "n < length str \<Longrightarrow> \<exists>k. lastRuneLoop str n = Inr k"
  by (induction n) auto

lemma lastRuneLoop_at_end:
  "0 < n \<Longrightarrow> length str \<le> n \<Longrightarrow> lastRuneLoop str n = Inl IndexOutOfRange"
  by (cases n) auto

text \<open>Whatever \<open>trimLeftBytes\<close> returns is a prefix of its input, within the limit.\<close>

lemma trimLeftBytes_prefix:
  "trimLeftBytes str maxBytes = Inr r \<Longrightarrow>
   prefix r str \<and> (0 \<le> maxBytes \<longrightarrow> int (length r) \<le> maxBytes)"
  by (auto simp: trimLeftBytes_def Let_def take_is_prefix
           split: if_splits sum.splits dest: lastRuneLoop_le)

text \<open>
  For a limit that is not negative, \<open>trimLeftBytes\<close> panics in exactly one situation:
  the input has exactly \<open>maxBytes\<close> bytes, at least one, and is not valid UTF-8.
\<close>

lemma trimLeftBytes_panics_iff:
  assumes "0 \<le> maxBytes"
  shows "(\<exists>p. trimLeftBytes str maxBytes = Inl p) \<longleftrightarrow>
         (0 < maxBytes \<and> int (length str) = maxBytes \<and> \<not> ValidString str)"
proof (cases "int (length str) < maxBytes")
  case True
  then show ?thesis by (simp add: trimLeftBytes_def)
next
  case False
  note ge = this
  show ?thesis
  proof (cases "int (length str) = maxBytes")
    case True
    then have tk: "take (nat maxBytes) str = str" by auto
    show ?thesis
    proof (cases "ValidString str")
      case True
      with tk ge assms show ?thesis by (simp add: trimLeftBytes_def)
    next
      case False
      then have "str \<noteq> []" by auto
      with True have pos: "0 < maxBytes" by auto
      then have "lastRuneLoop str (nat maxBytes) = Inl IndexOutOfRange"
        using True by (intro lastRuneLoop_at_end) auto
      with False tk ge assms pos True show ?thesis by (simp add: trimLeftBytes_def)
    qed
  next
    case False
    with ge have "nat maxBytes < length str" using assms by auto
    from lastRuneLoop_in_range[OF this]
    obtain k where "lastRuneLoop str (nat maxBytes) = Inr k" ..
    with False ge assms show ?thesis by (simp add: trimLeftBytes_def Let_def)
  qed
qed

text \<open>
  C5. Truncating the three code points of \<open>nihongo\<close> (three bytes each) to 0, 1 or 2
  bytes gives the empty string, to 3, 4 or 5 bytes the first code point, and to 6 bytes
  the first two: no partial code point is emitted. This is the table of
  \<^verbatim>\<open>TestStringTrimLeftBytes\<close>.
\<close>

theorem trimLeftBytes_nihongo:
  "trimLeftBytes nihongo 0 = Inr [] \<and>
   trimLeftBytes nihongo 1 = Inr [] \<and>
   trimLeftBytes nihongo 2 = Inr [] \<and>
   trimLeftBytes nihongo 3 = Inr [CHR 0xE6, CHR 0x97, CHR 0xA5] \<and>
   trimLeftBytes nihongo 4 = Inr [CHR 0xE6, CHR 0x97, CHR 0xA5] \<and>
   trimLeftBytes nihongo 5 = Inr [CHR 0xE6, CHR 0x97, CHR 0xA5] \<and>
   trimLeftBytes nihongo 6 = Inr [CHR 0xE6, CHR 0x97, CHR 0xA5, CHR 0xE6, CHR 0x9C, CHR 0xAC]"
  by code_simp

text \<open>
  C10. The claim is that \<open>trimLeftBytes\<close> never panics for a limit that is not
  negative, also when the input has exactly \<open>maxBytes\<close> bytes and is not valid UTF-8.
  The code does panic there: the first test is \<^verbatim>\<open>len(str) < maxBytes\<close>, so an input of
  exactly \<open>maxBytes\<close> bytes goes on, and the loop then reads \<^verbatim>\<open>str[maxBytes]\<close>, one
  past the end. On the single byte \<^verbatim>\<open>0xFF\<close> with limit 1 the result is the
  index-out-of-range panic.
\<close>

theorem trimLeftBytes_panics_at_exact_length:
  "trimLeftBytes [CHR 0xFF] 1 = Inl IndexOutOfRange"
  by code_simp

section \<open>Dead-lettering\<close>

lemma emit_simps [simp]:
  "trace (emit e w) = trace w @ [e]"
  "attrMaps (emit e w) = attrMaps w"
  "chans (emit e w) = chans w"
  "nextMap (emit e w) = nextMap w"
  "now (emit e w) = now w"
  by (simp_all add: emit_def)

lemma setAttr_simps [simp]:
  "trace (setAttr a k v w) = trace w"
  "attrMaps (setAttr a k v w) = (attrMaps w)(a := (attrMaps w a)(k \<mapsto> v))"
  "chans (setAttr a k v w) = chans w"
  "nextMap (setAttr a k v w) = nextMap w"
  "now (setAttr a k v w) = now w"
  by (simp_all add: setAttr_def)

lemma bumpDeadLetterCount_simps [simp]:
  "trace (bumpDeadLetterCount a w) = trace w"
  "chans (bumpDeadLetterCount a w) = chans w"
  "nextMap (bumpDeadLetterCount a w) = nextMap w"
  "now (bumpDeadLetterCount a w) = now w"
  by (simp_all add: bumpDeadLetterCount_def split: option.splits sum.splits)

lemma bumpDeadLetterCount_other:
  "b \<noteq> a \<Longrightarrow> attrMaps (bumpDeadLetterCount a w) b = attrMaps w b"
  by (simp add: bumpDeadLetterCount_def split: option.splits sum.splits)

lemma bumpDeadLetterCount_attr:
  "attrMaps (bumpDeadLetterCount a w) a k =
     (if k = ''deadLetterCount'' then
        Some (case attrMaps w a ''deadLetterCount'' of
                None \<Rightarrow> ''1''
              | Some val \<Rightarrow>
                  (case ParseInt val of Inr i \<Rightarrow> FormatInt (wrap64 (i + 1)) | Inl e \<Rightarrow> val))
      else attrMaps w a k)"
  by (simp add: bumpDeadLetterCount_def split: option.splits sum.splits)

lemma copyAttributes_frame:
  "copyAttributes msg cause w = (r, w') \<Longrightarrow>
     trace w' = trace w \<and> chans w' = chans w \<and> now w' = now w \<and>
     nextMap w' = Suc (nextMap w) \<and>
     (\<forall>a. a \<noteq> nextMap w \<longrightarrow> attrMaps w' a = attrMaps w a) \<and>
     (\<forall>a. r = Inr a \<longrightarrow> a = nextMap w)"
  unfolding copyAttributes_def makeMap_def Let_def
  by (auto split: option.splits sum.splits simp: bumpDeadLetterCount_other)

lemma copyAttributes_returns:
  assumes "Message msg = Some m" "Channel msg = Some c" "cause = Some errText"
    "trimLeftBytes errText 1024 = Inr t"
    and wf: "\<forall>a. Attributes m = Some a \<longrightarrow> a < nextMap w"
  shows "\<exists>w'. copyAttributes msg cause w = (Inr (nextMap w), w') \<and>
           (\<forall>k. attrMaps w' (nextMap w) k =
             (if k = ''deadLetterCount'' then
                Some (case readMap w (Attributes m) ''deadLetterCount'' of
                        None \<Rightarrow> ''1''
                      | Some val \<Rightarrow>
                          (case ParseInt val of
                             Inr i \<Rightarrow> FormatInt (wrap64 (i + 1))
                           | Inl e \<Rightarrow> val))
              else if k = ''error'' then Some t
              else if k = ''originalSubscriptionID'' then Some (SubscriptionID (chans w c))
              else if k = ''originalTopicID'' then Some (TopicID (chans w c))
              else if k = ''originalMessageID'' then Some (MessageID m)
              else readMap w (Attributes m) k))"
proof -
  have rd: "readMap (w\<lparr>attrMaps := (attrMaps w)(nextMap w := Map.empty), nextMap := Suc (nextMap w)\<rparr>)
              (Attributes m) = readMap w (Attributes m)"
    using wf by (cases "Attributes m") (auto simp: readMap_def)
  show ?thesis
    using assms(1-4)
    by (simp add: copyAttributes_def makeMap_def Let_def rd bumpDeadLetterCount_attr)
qed

lemma DeadLetter_frame:
  "DeadLetter msg cause w = (r, w') \<Longrightarrow>
     chans w' = chans w \<and> now w' = now w \<and> nextMap w \<le> nextMap w' \<and>
     (\<forall>a. a \<noteq> nextMap w \<longrightarrow> attrMaps w' a = attrMaps w a)"
  unfolding DeadLetter_def Let_def
  by (auto split: option.splits sum.splits prod.splits dest!: copyAttributes_frame)

lemma DeadLetter_outcome:
  assumes "DeadLetter msg cause w = (r, w')"
  shows "(trace w' = trace w \<and> (\<exists>p. r = Inl p)) \<or>
         (\<exists>s. Service msg = Some s \<and> DeadLetterChannel s = None \<and> w' = w \<and>
              r = Inr (Some (New ''no deadletter channel configured''))) \<or>
         (\<exists>s dl client m.
            Service msg = Some s \<and> DeadLetterChannel s = Some dl \<and> Client s = Some client \<and>
            Message msg = Some m \<and>
            (case publish client (TopicID (chans w dl)) (Data m) (attrMaps w' (nextMap w)) of
               None \<Rightarrow> r = Inr None \<and>
                 trace w' = trace w @ [Published (TopicID (chans w dl)) (Data m) (nextMap w),
                                       Acked (MessageID m)]
             | Some err \<Rightarrow>
                 r = Inr (Some (Wrapf err ''failed to sent message to dead letter topic %q''
                                  [topicName s (TopicID (chans w dl))])) \<and>
                 trace w' = trace w @ [Published (TopicID (chans w dl)) (Data m) (nextMap w),
                                       Nacked (MessageID m)]))"
  using assms
  unfolding DeadLetter_def Let_def
  by (auto split: option.splits sum.splits prod.splits dest!: copyAttributes_frame)


lemma DeadLetter_publishes:
  assumes "Service msg = Some s" "DeadLetterChannel s = Some dl" "Client s = Some client"
    "Message msg = Some m" "Channel msg = Some c" "cause = Some errText"
    "trimLeftBytes errText 1024 = Inr t"
    and wf: "\<forall>a. Attributes m = Some a \<longrightarrow> a < nextMap w"
    and run: "DeadLetter msg cause w = (r, w')"
  shows "attrMaps w' (nextMap w) k =
           (if k = ''deadLetterCount'' then
              Some (case readMap w (Attributes m) ''deadLetterCount'' of
                      None \<Rightarrow> ''1''
                    | Some val \<Rightarrow>
                        (case ParseInt val of
                           Inr i \<Rightarrow> FormatInt (wrap64 (i + 1))
                         | Inl e \<Rightarrow> val))
            else if k = ''error'' then Some t
            else if k = ''originalSubscriptionID'' then Some (SubscriptionID (chans w c))
            else if k = ''originalTopicID'' then Some (TopicID (chans w c))
            else if k = ''originalMessageID'' then Some (MessageID m)
            else readMap w (Attributes m) k)"
    and "trace w' = trace w @ [Published (TopicID (chans w dl)) (Data m) (nextMap w),
            (case r of Inr None \<Rightarrow> Acked (MessageID m) | _ \<Rightarrow> Nacked (MessageID m))]"
    and "r = Inr (case publish client (TopicID (chans w dl)) (Data m) (attrMaps w' (nextMap w)) of
                    None \<Rightarrow> None
                  | Some err \<Rightarrow> Some (Wrapf err ''failed to sent message to dead letter topic %q''
                                         [topicName s (TopicID (chans w dl))]))"
proof -
  from copyAttributes_returns[OF assms(4-7) wf]
  obtain w1 where c: "copyAttributes msg cause w = (Inr (nextMap w), w1)"
    and a: "\<And>k. attrMaps w1 (nextMap w) k =
             (if k = ''deadLetterCount'' then
                Some (case readMap w (Attributes m) ''deadLetterCount'' of
                        None \<Rightarrow> ''1''
                      | Some val \<Rightarrow>
                          (case ParseInt val of
                             Inr i \<Rightarrow> FormatInt (wrap64 (i + 1))
                           | Inl e \<Rightarrow> val))
              else if k = ''error'' then Some t
              else if k = ''originalSubscriptionID'' then Some (SubscriptionID (chans w c))
              else if k = ''originalTopicID'' then Some (TopicID (chans w c))
              else if k = ''originalMessageID'' then Some (MessageID m)
              else readMap w (Attributes m) k)"
    by blast
  from copyAttributes_frame[OF c] have f: "trace w1 = trace w" "chans w1 = chans w" by simp_all
  have m: "attrMaps w' = attrMaps w1 \<and>
           trace w' = trace w @ [Published (TopicID (chans w dl)) (Data m) (nextMap w),
            (case r of Inr None \<Rightarrow> Acked (MessageID m) | _ \<Rightarrow> Nacked (MessageID m))] \<and>
           r = Inr (case publish client (TopicID (chans w dl)) (Data m) (attrMaps w1 (nextMap w)) of
                    None \<Rightarrow> None
                  | Some err \<Rightarrow> Some (Wrapf err ''failed to sent message to dead letter topic %q''
                                         [topicName s (TopicID (chans w dl))]))"
    using run assms(1-4) c f
    by (auto simp: DeadLetter_def Let_def split: option.splits)
  show "attrMaps w' (nextMap w) k =
           (if k = ''deadLetterCount'' then
              Some (case readMap w (Attributes m) ''deadLetterCount'' of
                      None \<Rightarrow> ''1''
                    | Some val \<Rightarrow>
                        (case ParseInt val of
                           Inr i \<Rightarrow> FormatInt (wrap64 (i + 1))
                         | Inl e \<Rightarrow> val))
            else if k = ''error'' then Some t
            else if k = ''originalSubscriptionID'' then Some (SubscriptionID (chans w c))
            else if k = ''originalTopicID'' then Some (TopicID (chans w c))
            else if k = ''originalMessageID'' then Some (MessageID m)
            else readMap w (Attributes m) k)"
    using m a by simp
  show "trace w' = trace w @ [Published (TopicID (chans w dl)) (Data m) (nextMap w),
            (case r of Inr None \<Rightarrow> Acked (MessageID m) | _ \<Rightarrow> Nacked (MessageID m))]"
    using m by simp
  show "r = Inr (case publish client (TopicID (chans w dl)) (Data m) (attrMaps w' (nextMap w)) of
                    None \<Rightarrow> None
                  | Some err \<Rightarrow> Some (Wrapf err ''failed to sent message to dead letter topic %q''
                                         [topicName s (TopicID (chans w dl))]))"
    using m by simp
qed

lemma ParseInt_range: "ParseInt val = Inr i \<Longrightarrow> - (2 ^ 63) \<le> i \<and> i < 2 ^ 63"
  by (auto simp: ParseInt_def Let_def split: if_splits sum.splits NumError.splits)

lemma wrap64_id: "- (2 ^ 63) \<le> x \<Longrightarrow> x < 2 ^ 63 \<Longrightarrow> wrap64 x = x"
  by (simp add: wrap64_def)


lemma copyAttributes_keys:
  assumes "copyAttributes msg cause w = (Inr a, w1)"
  shows "{''originalMessageID'', ''originalTopicID'', ''originalSubscriptionID'',
          ''error'', ''deadLetterCount''} \<subseteq> dom (attrMaps w1 a)"
  using assms
  unfolding copyAttributes_def makeMap_def Let_def
  by (auto split: option.splits sum.splits simp: bumpDeadLetterCount_attr)

lemma DeadLetter_published_keys:
  assumes "DeadLetter msg cause w = (r, w')" and "trace w' \<noteq> trace w"
  shows "{''originalMessageID'', ''originalTopicID'', ''originalSubscriptionID'',
          ''error'', ''deadLetterCount''} \<subseteq> dom (attrMaps w' (nextMap w))"
proof -
  from assms obtain a w1 where c: "copyAttributes msg cause w = (Inr a, w1)"
    and m: "attrMaps w' = attrMaps w1"
    unfolding DeadLetter_def Let_def
    by (auto split: option.splits sum.splits prod.splits dest: copyAttributes_frame)
  from copyAttributes_frame[OF c] have "a = nextMap w" by simp
  with copyAttributes_keys[OF c] m show ?thesis by simp
qed

lemmas fixture_defs = testChannels_def testClient_def testService_def testWorld_def
  testMessage_def testRich_def

lemma trim_test_error: "trimLeftBytes ''test error'' 1024 = Inr ''test error''"
  by (simp add: trimLeftBytes_def)

text \<open>
  C2. \<open>DeadLetter\<close> on a message whose service has no dead-letter channel returns
  the error \<^verbatim>\<open>no deadletter channel configured\<close> and leaves the store as it was, so
  nothing is published, acknowledged or negatively acknowledged. With a dead-letter
  channel, a call that does not panic publishes the fresh map to the topic of that
  channel and then, if the publish succeeded, acknowledges the original message and
  returns no error, and if the publish failed, negatively acknowledges it and returns
  the publish error wrapped; a call that panics has made no call on the transport.
  The call does not panic when the message, its channel, the client and the cause are
  not nil and the text of the cause can be trimmed.
\<close>

theorem DeadLetter_disposition:
  assumes "DeadLetter msg cause w = (r, w')" and "Service msg = Some s"
  shows "(DeadLetterChannel s = None \<longrightarrow>
            r = Inr (Some (New ''no deadletter channel configured'')) \<and> w' = w) \<and>
         (\<forall>dl. DeadLetterChannel s = Some dl \<longrightarrow>
            (trace w' = trace w \<and> (\<exists>p. r = Inl p)) \<or>
            (\<exists>client m.
               Client s = Some client \<and> Message msg = Some m \<and>
               (case publish client (TopicID (chans w dl)) (Data m) (attrMaps w' (nextMap w)) of
                  None \<Rightarrow>
                    r = Inr None \<and>
                    trace w' = trace w @ [Published (TopicID (chans w dl)) (Data m) (nextMap w),
                                          Acked (MessageID m)]
                | Some err \<Rightarrow>
                    r = Inr (Some (Wrapf err ''failed to sent message to dead letter topic %q''
                                     [topicName s (TopicID (chans w dl))])) \<and>
                    trace w' = trace w @ [Published (TopicID (chans w dl)) (Data m) (nextMap w),
                                          Nacked (MessageID m)]))) \<and>
         (\<forall>dl client m c errText t.
            DeadLetterChannel s = Some dl \<and> Client s = Some client \<and> Message msg = Some m \<and>
            Channel msg = Some c \<and> cause = Some errText \<and> trimLeftBytes errText 1024 = Inr t \<longrightarrow>
            (\<exists>e. r = Inr e))"
proof -
  have none: "DeadLetterChannel s = None \<longrightarrow>
            r = Inr (Some (New ''no deadletter channel configured'')) \<and> w' = w"
    using assms by (auto simp: DeadLetter_def)
  have some: "\<forall>dl. DeadLetterChannel s = Some dl \<longrightarrow>
            (trace w' = trace w \<and> (\<exists>p. r = Inl p)) \<or>
            (\<exists>client m.
               Client s = Some client \<and> Message msg = Some m \<and>
               (case publish client (TopicID (chans w dl)) (Data m) (attrMaps w' (nextMap w)) of
                  None \<Rightarrow>
                    r = Inr None \<and>
                    trace w' = trace w @ [Published (TopicID (chans w dl)) (Data m) (nextMap w),
                                          Acked (MessageID m)]
                | Some err \<Rightarrow>
                    r = Inr (Some (Wrapf err ''failed to sent message to dead letter topic %q''
                                     [topicName s (TopicID (chans w dl))])) \<and>
                    trace w' = trace w @ [Published (TopicID (chans w dl)) (Data m) (nextMap w),
                                          Nacked (MessageID m)]))"
    using DeadLetter_outcome[OF assms(1)] assms(2) by auto
  have returns: "\<forall>dl client m c errText t.
            DeadLetterChannel s = Some dl \<and> Client s = Some client \<and> Message msg = Some m \<and>
            Channel msg = Some c \<and> cause = Some errText \<and> trimLeftBytes errText 1024 = Inr t \<longrightarrow>
            (\<exists>e. r = Inr e)"
    using assms
    by (auto simp: DeadLetter_def copyAttributes_def makeMap_def Let_def split: option.splits)
  from none some returns show ?thesis by blast
qed


text \<open>
  The three outcomes on the fixture: no dead-letter channel, a publish that succeeds
  and a publish that the server refuses.
\<close>

theorem DeadLetter_disposition_witness:
  "DeadLetter (testRich None False) (Some ''test error'') (testWorld Map.empty 0) =
     (Inr (Some (New ''no deadletter channel configured'')), testWorld Map.empty 0) \<and>
   fst (DeadLetter (testRich None True) (Some ''test error'') (testWorld Map.empty 0)) = Inr None \<and>
   trace (snd (DeadLetter (testRich None True) (Some ''test error'') (testWorld Map.empty 0))) =
     [Published ''dead-letter-topic'' ''test message'' 1, Acked ''1''] \<and>
   fst (DeadLetter (testRich (Some unavailable) True) (Some ''test error'') (testWorld Map.empty 0)) =
     Inr (Some (Wrapf unavailable ''failed to sent message to dead letter topic %q''
                  [''projects/metrix-io/topics/dead-letter-topic''])) \<and>
   trace (snd (DeadLetter (testRich (Some unavailable) True) (Some ''test error'') (testWorld Map.empty 0))) =
     [Published ''dead-letter-topic'' ''test message'' 1, Nacked ''1'']"
proof -
  let ?w = "testWorld Map.empty 0"
  let ?c = "Some ''test error''"
  have a: "DeadLetter (testRich None False) ?c ?w =
             (Inr (Some (New ''no deadletter channel configured'')), ?w)"
    using DeadLetter_disposition[of "testRich None False" ?c ?w
        "fst (DeadLetter (testRich None False) ?c ?w)"
        "snd (DeadLetter (testRich None False) ?c ?w)" "testService None [] False"]
    by (simp add: testRich_def testService_def prod_eq_iff)
  have b: "fst (DeadLetter (testRich None True) ?c ?w) = Inr None \<and>
           trace (snd (DeadLetter (testRich None True) ?c ?w)) =
             [Published ''dead-letter-topic'' ''test message'' 1, Acked ''1'']"
    using DeadLetter_disposition[of "testRich None True" ?c ?w
        "fst (DeadLetter (testRich None True) ?c ?w)"
        "snd (DeadLetter (testRich None True) ?c ?w)" "testService None [] True"]
      trim_test_error
    by (auto simp: fixture_defs)
  have c: "fst (DeadLetter (testRich (Some unavailable) True) ?c ?w) =
             Inr (Some (Wrapf unavailable ''failed to sent message to dead letter topic %q''
                  [''projects/metrix-io/topics/dead-letter-topic''])) \<and>
           trace (snd (DeadLetter (testRich (Some unavailable) True) ?c ?w)) =
             [Published ''dead-letter-topic'' ''test message'' 1, Nacked ''1'']"
    using DeadLetter_disposition[of "testRich (Some unavailable) True" ?c ?w
        "fst (DeadLetter (testRich (Some unavailable) True) ?c ?w)"
        "snd (DeadLetter (testRich (Some unavailable) True) ?c ?w)"
        "testService (Some unavailable) [] True"]
      trim_test_error
    by (auto simp: fixture_defs topicName_def)
  from a b c show ?thesis by simp
qed

text \<open>
  C1. For a message (with its raw message and its channel) whose age
  \<^verbatim>\<open>time.Since(PublishTime)\<close> is at most the \<open>MaxRetryAge\<close> of its channel,
  \<open>RetryableError\<close> negatively acknowledges the message, which is its only call on
  the transport, and returns no error. For a message that is older it is
  \<open>DeadLetter\<close>, result and effects, and when that call has published and the
  publish succeeded, the original message is acknowledged and no error returned.
\<close>

theorem RetryableError_policy:
  assumes "Message msg = Some m" and "Channel msg = Some c"
  shows "(Since w (PublishTime m) \<le> MaxRetryAge (chans w c) \<longrightarrow>
            RetryableError msg cause w = (Inr None, emit (Nacked (MessageID m)) w)) \<and>
         (MaxRetryAge (chans w c) < Since w (PublishTime m) \<longrightarrow>
            RetryableError msg cause w = DeadLetter msg cause w \<and>
            (\<forall>r w' s client topic rest.
               RetryableError msg cause w = (r, w') \<and>
               Service msg = Some s \<and> Client s = Some client \<and>
               trace w' = trace w @ Published topic (Data m) (nextMap w) # rest \<and>
               publish client topic (Data m) (attrMaps w' (nextMap w)) = None \<longrightarrow>
               r = Inr None \<and> rest = [Acked (MessageID m)]))"
proof -
  have young: "Since w (PublishTime m) \<le> MaxRetryAge (chans w c) \<longrightarrow>
            RetryableError msg cause w = (Inr None, emit (Nacked (MessageID m)) w)"
    using assms by (simp add: RetryableError_def)
  have old: "MaxRetryAge (chans w c) < Since w (PublishTime m) \<longrightarrow>
            RetryableError msg cause w = DeadLetter msg cause w"
    using assms by (simp add: RetryableError_def)
  have ack: "r = Inr None \<and> rest = [Acked (MessageID m)]"
    if run: "DeadLetter msg cause w = (r, w')"
      and s: "Service msg = Some s" "Client s = Some client"
      and tr: "trace w' = trace w @ Published topic (Data m) (nextMap w) # rest"
      and ok: "publish client topic (Data m) (attrMaps w' (nextMap w)) = None"
    for r w' s client topic rest
    using DeadLetter_outcome[OF run] s tr ok assms(1)
    by (auto split: option.splits)
  from young old ack show ?thesis by auto
qed

text \<open>
  The two scenarios of the tests: 119 seconds after publishing the message is only
  negatively acknowledged, 121 seconds after publishing it goes to the dead-letter
  topic and is acknowledged.
\<close>

theorem RetryableError_policy_witness:
  "RetryableError (testRich None True) (Some ''test error'') (testWorld Map.empty (119 * 1000000000)) =
     (Inr None, emit (Nacked ''1'') (testWorld Map.empty (119 * 1000000000))) \<and>
   RetryableError (testRich None True) (Some ''test error'') (testWorld Map.empty (121 * 1000000000)) =
     DeadLetter (testRich None True) (Some ''test error'') (testWorld Map.empty (121 * 1000000000)) \<and>
   fst (RetryableError (testRich None True) (Some ''test error'')
          (testWorld Map.empty (121 * 1000000000))) = Inr None \<and>
   trace (snd (RetryableError (testRich None True) (Some ''test error'')
          (testWorld Map.empty (121 * 1000000000)))) =
     [Published ''dead-letter-topic'' ''test message'' 1, Acked ''1'']"
proof -
  let ?young = "testWorld Map.empty (119 * 1000000000)"
  let ?old = "testWorld Map.empty (121 * 1000000000)"
  let ?c = "Some ''test error''"
  let ?run = "RetryableError (testRich None True) ?c ?old"
  have m: "Message (testRich None True) = Some testMessage" "Channel (testRich None True) = Some 0"
    by (simp_all add: testRich_def)
  have young: "Since ?young (PublishTime testMessage) \<le> MaxRetryAge (chans ?young 0)"
    by (simp add: fixture_defs Since_def Sub_def Minute_def)
  have old: "MaxRetryAge (chans ?old 0) < Since ?old (PublishTime testMessage)"
    by (simp add: fixture_defs Since_def Sub_def Minute_def)
  note policy = RetryableError_policy[OF m, of ?old ?c]
  from policy old have eq: "?run = DeadLetter (testRich None True) ?c ?old" by blast
  then have run: "DeadLetter (testRich None True) ?c ?old = (fst ?run, snd ?run)" by simp
  have wf: "\<forall>a. Attributes testMessage = Some a \<longrightarrow> a < nextMap ?old"
    by (simp add: fixture_defs)
  note facts = DeadLetter_publishes[where msg = "testRich None True"
      and s = "testService None [] True" and dl = 1 and client = "testClient None []"
      and m = testMessage and c = 0 and errText = "''test error''" and t = "''test error''",
      OF _ _ _ _ _ refl trim_test_error wf run]
  have tr: "trace (snd ?run) = trace ?old @
        Published ''dead-letter-topic'' (Data testMessage) (nextMap ?old) #
        [case fst ?run of Inr None \<Rightarrow> Acked (MessageID testMessage)
         | _ \<Rightarrow> Nacked (MessageID testMessage)]"
    using facts(2) by (simp add: fixture_defs)
  have ok: "publish (testClient None []) ''dead-letter-topic'' (Data testMessage)
              (attrMaps (snd ?run) (nextMap ?old)) = None"
    by (simp add: testClient_def)
  have s: "Service (testRich None True) = Some (testService None [] True)"
    "Client (testService None [] True) = Some (testClient None [])"
    by (simp_all add: testRich_def testService_def)
  from policy old have "\<forall>r w' s client topic rest.
               ?run = (r, w') \<and>
               Service (testRich None True) = Some s \<and> Client s = Some client \<and>
               trace w' = trace ?old @ Published topic (Data testMessage) (nextMap ?old) # rest \<and>
               publish client topic (Data testMessage) (attrMaps w' (nextMap ?old)) = None \<longrightarrow>
               r = Inr None \<and> rest = [Acked (MessageID testMessage)]"
    by blast
  from this[rule_format, of "fst ?run" "snd ?run" "testService None [] True" "testClient None []"
      "''dead-letter-topic''"] s tr ok
  have ack: "fst ?run = Inr None" by simp
  with tr have tr': "trace (snd ?run) =
     [Published ''dead-letter-topic'' ''test message'' 1, Acked ''1'']"
    by (simp add: testWorld_def testMessage_def)
  from RetryableError_policy[OF m, of ?young ?c] young
  have y: "RetryableError (testRich None True) ?c ?young = (Inr None, emit (Nacked ''1'') ?young)"
    by (simp add: testMessage_def)
  from y eq ack tr' show ?thesis by simp
qed

text \<open>
  C3, as stated, fails. The claim sets the counter to \<^verbatim>\<open>"1"\<close> whenever the original
  value is absent or does not parse. In the code the branch that writes \<^verbatim>\<open>"1"\<close>
  belongs to the test for presence, and a value that is present and does not parse is
  left as it is: a message carrying \<^verbatim>\<open>deadLetterCount = "abc"\<close> is republished with
  \<^verbatim>\<open>"abc"\<close>.
\<close>

theorem deadLetterCount_unparseable_counterexample:
  "attrMaps (snd (DeadLetter (testRich None True) (Some ''test error'')
                    (testWorld [''deadLetterCount'' \<mapsto> ''abc''] 0))) 1 ''deadLetterCount''
     = Some ''abc'' \<and>
   ParseInt ''abc'' = Inl ErrSyntax \<and>
   trace (snd (DeadLetter (testRich None True) (Some ''test error'')
                 (testWorld [''deadLetterCount'' \<mapsto> ''abc''] 0)))
     = [Published ''dead-letter-topic'' ''test message'' 1, Acked ''1'']"
proof -
  let ?w = "testWorld [''deadLetterCount'' \<mapsto> ''abc''] 0"
  let ?run = "DeadLetter (testRich None True) (Some ''test error'') ?w"
  have p: "ParseInt ''abc'' = Inl ErrSyntax"
    by (simp add: ParseInt_def ParseUint_def digit_def)
  have run: "?run = (fst ?run, snd ?run)" by simp
  have wf: "\<forall>a. Attributes testMessage = Some a \<longrightarrow> a < nextMap ?w"
    by (simp add: fixture_defs)
  note facts = DeadLetter_publishes[where msg = "testRich None True" and s = "testService None [] True"
      and dl = 1 and client = "testClient None []" and m = testMessage and c = 0
      and errText = "''test error''" and t = "''test error''", OF _ _ _ _ _ refl trim_test_error wf run]
  have 1: "attrMaps (snd ?run) (nextMap ?w) ''deadLetterCount'' = Some ''abc''"
    by (subst facts(1)) (simp_all add: fixture_defs readMap_def p)
  have 2: "fst ?run = Inr None"
    by (subst facts(3)) (simp_all add: fixture_defs)
  have 3: "trace (snd ?run) = [Published ''dead-letter-topic'' ''test message'' 1, Acked ''1'']"
    using facts(2) 2 by (simp add: fixture_defs)
  from 1 3 p show ?thesis by (simp add: testWorld_def)
qed


text \<open>
  C3, amended. When \<open>DeadLetter\<close> republishes a message, the new attributes carry
  \<open>deadLetterCount\<close> as follows: \<^verbatim>\<open>"1"\<close> if the original attributes have no such
  key; the value plus one, printed in base 10, if the original value parses as a base-10
  64-bit integer below the largest one; and the original value, unchanged, if it does
  not parse. In particular the count starts at \<^verbatim>\<open>"1"\<close> and a message carrying
  \<^verbatim>\<open>"1"\<close> is republished with \<^verbatim>\<open>"2"\<close>.
\<close>

theorem deadLetterCount_rule:
  assumes "Service msg = Some s" "DeadLetterChannel s = Some dl" "Client s = Some client"
    "Message msg = Some m" "Channel msg = Some c" "cause = Some errText"
    "trimLeftBytes errText 1024 = Inr t"
    and wf: "\<forall>a. Attributes m = Some a \<longrightarrow> a < nextMap w"
    and run: "DeadLetter msg cause w = (r, w')"
  shows "(\<exists>ev. trace w' = trace w @ [Published (TopicID (chans w dl)) (Data m) (nextMap w), ev]) \<and>
         (readMap w (Attributes m) ''deadLetterCount'' = None \<longrightarrow>
            attrMaps w' (nextMap w) ''deadLetterCount'' = Some ''1'') \<and>
         (\<forall>val i. readMap w (Attributes m) ''deadLetterCount'' = Some val \<and>
                  ParseInt val = Inr i \<and> i < 2 ^ 63 - 1 \<longrightarrow>
            attrMaps w' (nextMap w) ''deadLetterCount'' = Some (FormatInt (i + 1))) \<and>
         (\<forall>val e. readMap w (Attributes m) ''deadLetterCount'' = Some val \<and>
                  ParseInt val = Inl e \<longrightarrow>
            attrMaps w' (nextMap w) ''deadLetterCount'' = Some val)"
proof -
  note facts = DeadLetter_publishes[OF assms]
  have "wrap64 (i + 1) = i + 1" if "ParseInt val = Inr i" "i < 2 ^ 63 - 1" for val i
    using ParseInt_range[OF that(1)] that(2) by (intro wrap64_id) auto
  then show ?thesis
    using facts(2) by (auto simp: facts(1))
qed

text \<open>
  On the fixture: a first dead-letter gives \<^verbatim>\<open>"1"\<close>, a message carrying \<^verbatim>\<open>"1"\<close>
  gives \<^verbatim>\<open>"2"\<close>, and \<^verbatim>\<open>"x1"\<close> stays \<^verbatim>\<open>"x1"\<close>.
\<close>

theorem deadLetterCount_rule_witness:
  "attrMaps (snd (DeadLetter (testRich None True) (Some ''test error'')
                    (testWorld [''event'' \<mapsto> ''ev1''] 0))) 1 ''deadLetterCount'' = Some ''1'' \<and>
   attrMaps (snd (DeadLetter (testRich None True) (Some ''test error 2'')
                    (testWorld [''event'' \<mapsto> ''ev1'', ''deadLetterCount'' \<mapsto> ''1''] 0))) 1
                    ''deadLetterCount'' = Some ''2'' \<and>
   attrMaps (snd (DeadLetter (testRich None True) (Some ''test error'')
                    (testWorld [''deadLetterCount'' \<mapsto> ''x1''] 0))) 1 ''deadLetterCount''
     = Some ''x1''"
proof -
  let ?m = "testRich None True"
  let ?w1 = "testWorld [''event'' \<mapsto> ''ev1''] 0"
  let ?w2 = "testWorld [''event'' \<mapsto> ''ev1'', ''deadLetterCount'' \<mapsto> ''1''] 0"
  let ?w3 = "testWorld [''deadLetterCount'' \<mapsto> ''x1''] 0"
  have trim2: "trimLeftBytes ''test error 2'' 1024 = Inr ''test error 2''"
    by (simp add: trimLeftBytes_def)
  have p1: "ParseInt ''1'' = Inr 1"
    by (simp add: ParseInt_def ParseUint_def digit_def)
  have px: "ParseInt ''x1'' = Inl ErrSyntax"
    by (simp add: ParseInt_def ParseUint_def digit_def)
  have f2: "FormatInt (1 + 1) = ''2''"
    by (simp add: FormatInt_def digits.simps)
  have s: "Service ?m = Some (testService None [] True)"
    "DeadLetterChannel (testService None [] True) = Some 1"
    "Client (testService None [] True) = Some (testClient None [])"
    "Message ?m = Some testMessage" "Channel ?m = Some 0"
    by (simp_all add: testRich_def testService_def)
  have wf: "\<forall>a. Attributes testMessage = Some a \<longrightarrow> a < nextMap (testWorld attrs 0)" for attrs
    by (simp add: fixture_defs)
  have rd: "readMap (testWorld attrs 0) (Attributes testMessage) = attrs" for attrs
    by (simp add: fixture_defs readMap_def)
  have n: "nextMap (testWorld attrs 0) = 1" for attrs
    by (simp add: testWorld_def)
  have 1: "attrMaps (snd (DeadLetter ?m (Some ''test error'') ?w1)) 1 ''deadLetterCount'' = Some ''1''"
    using deadLetterCount_rule[OF s refl trim_test_error wf surjective_pairing[of "DeadLetter ?m (Some ''test error'') ?w1"]]
    by (simp add: rd n)
  have 2: "attrMaps (snd (DeadLetter ?m (Some ''test error 2'') ?w2)) 1 ''deadLetterCount'' = Some ''2''"
    using deadLetterCount_rule[OF s refl trim2 wf surjective_pairing[of "DeadLetter ?m (Some ''test error 2'') ?w2"]] p1 f2
    by (simp add: rd n)
  have 3: "attrMaps (snd (DeadLetter ?m (Some ''test error'') ?w3)) 1 ''deadLetterCount'' = Some ''x1''"
    using deadLetterCount_rule[OF s refl trim_test_error wf surjective_pairing[of "DeadLetter ?m (Some ''test error'') ?w3"]] px
    by (simp add: rd n)
  from 1 2 3 show ?thesis by simp
qed

text \<open>
  C9. \<open>DeadLetter\<close> never writes to a map that existed before the call, so the
  attributes of the original message are what they were; every message it publishes
  carries the map allocated by this call, and the five additional attributes are
  written there.
\<close>

theorem DeadLetter_preserves_attributes:
  assumes run: "DeadLetter msg cause w = (r, w')"
  shows "(\<forall>a. a < nextMap w \<longrightarrow> attrMaps w' a = attrMaps w a) \<and>
         (\<forall>m a. Message msg = Some m \<and> Attributes m = Some a \<and> a < nextMap w \<longrightarrow>
                readMap w' (Attributes m) = readMap w (Attributes m)) \<and>
         (\<exists>evs. trace w' = trace w @ evs \<and>
                (\<forall>topic d a. Published topic d a \<in> set evs \<longrightarrow>
                   a = nextMap w \<and>
                   {''originalMessageID'', ''originalTopicID'', ''originalSubscriptionID'',
                    ''error'', ''deadLetterCount''} \<subseteq> dom (attrMaps w' a)))"
proof -
  from DeadLetter_frame[OF run]
  have frame: "\<forall>a. a < nextMap w \<longrightarrow> attrMaps w' a = attrMaps w a" by simp
  then have orig: "\<forall>m a. Message msg = Some m \<and> Attributes m = Some a \<and> a < nextMap w \<longrightarrow>
                readMap w' (Attributes m) = readMap w (Attributes m)"
    by (simp add: readMap_def)
  have "\<exists>evs. trace w' = trace w @ evs \<and>
                (\<forall>topic d a. Published topic d a \<in> set evs \<longrightarrow>
                   a = nextMap w \<and>
                   {''originalMessageID'', ''originalTopicID'', ''originalSubscriptionID'',
                    ''error'', ''deadLetterCount''} \<subseteq> dom (attrMaps w' a))"
  proof (cases "trace w' = trace w")
    case True
    then have "trace w' = trace w @ []" by simp
    then show ?thesis by fastforce
  next
    case False
    note keys = DeadLetter_published_keys[OF run False]
    from DeadLetter_outcome[OF run] False
    obtain topic d ev where tr: "trace w' = trace w @ [Published topic d (nextMap w), ev]"
      and ev: "\<forall>topic d a. ev \<noteq> Published topic d a"
      by (auto split: option.splits)
    show ?thesis
    proof (intro exI conjI allI impI)
      show "trace w' = trace w @ [Published topic d (nextMap w), ev]" by (rule tr)
    next
      fix topic' d' a
      assume "Published topic' d' a \<in> set [Published topic d (nextMap w), ev]"
      with ev show "a = nextMap w" by auto
      with keys show "{''originalMessageID'', ''originalTopicID'', ''originalSubscriptionID'',
                    ''error'', ''deadLetterCount''} \<subseteq> dom (attrMaps w' a)" by simp
    qed
  qed
  with frame orig show ?thesis by blast
qed

text \<open>On the fixture the attributes of the original message are still the one event name.\<close>

theorem DeadLetter_preserves_attributes_witness:
  "attrMaps (snd (DeadLetter (testRich None True) (Some ''test error'')
                    (testWorld [''event'' \<mapsto> ''ev1''] 0))) 0 = [''event'' \<mapsto> ''ev1'']"
  using DeadLetter_preserves_attributes[OF surjective_pairing[of
      "DeadLetter (testRich None True) (Some ''test error'') (testWorld [''event'' \<mapsto> ''ev1''] 0)"]]
  by (simp add: testWorld_def)

section \<open>The error translator\<close>

text \<open>
  What \<open>translateError\<close> computes. A nil error stays nil. A non-nil error becomes
  the one closed error exactly when it carries no gRPC status or its status code is
  \<open>Canceled\<close>; an error with a gRPC status of another code is wrapped with the
  message, and the cause can be read back from the wrapper.
\<close>

lemma translateError_cases:
  "translateError None wrapMsg args = None \<and>
   (translateError (Some e) wrapMsg args = Some ErrClosed \<longleftrightarrow>
      \<not> snd (FromError e) \<or> fst (FromError e) = Canceled) \<and>
   (snd (FromError e) \<and> fst (FromError e) \<noteq> Canceled \<longrightarrow>
      translateError (Some e) wrapMsg args = Some (Wrapf e wrapMsg args) \<and>
      Unwrap (Wrapf e wrapMsg args) = Some e)"
  by (auto simp: translateError_def ErrClosed_def split: prod.splits)

text \<open>A cancelled connection gives the closed error; a missing topic is wrapped.\<close>

lemma translateError_cases_example:
  "translateError (Some (StatusError Canceled ''grpc: the client connection is closing''))
      ''failed to retrieve topic %q'' [''test-topic''] = Some ErrClosed \<and>
   translateError (Some (StatusError NotFound ''no such topic''))
      ''failed to retrieve topic %q'' [''test-topic''] =
      Some (Wrapf (StatusError NotFound ''no such topic'') ''failed to retrieve topic %q'' [''test-topic''])"
  using translateError_cases[of "''failed to retrieve topic %q''" "[''test-topic'']"
      "StatusError Canceled ''grpc: the client connection is closing''"]
    translateError_cases[of "''failed to retrieve topic %q''" "[''test-topic'']"
      "StatusError NotFound ''no such topic''"]
  by simp

text \<open>
  C6. The claim is that the closed error is returned exactly for an error of the
  transport that stands for cancellation or shutdown, and that every other non-nil
  error is wrapped, its cause still readable; the comment of \<open>translateError\<close> says
  the same (an error that was not a cancelled client connection is wrapped). The code
  does not do this for an error without a gRPC status: the test \<^verbatim>\<open>!ok\<close> sends it to
  the closed error as well. The plain error the client returns for a second
  \<^verbatim>\<open>Receive\<close> on a subscription carries no status and is no cancellation, yet the
  result is \<open>ErrClosed\<close>, which wraps nothing: the cause is lost.
\<close>

theorem translateError_closes_plain_error:
  "FromError (New ''pubsub: Receive already in progress for this subscription'') = (Unknown, False) \<and>
   translateError (Some (New ''pubsub: Receive already in progress for this subscription''))
     ''receiving message from subscription %q failed'' [''test-subscription''] = Some ErrClosed \<and>
   Unwrap ErrClosed = None"
  by (simp add: translateError_def ErrClosed_def)

text \<open>
  At this input the first half of the test, \<^verbatim>\<open>!ok\<close>, is what holds: the error has
  no status, and the closed error is the result.
\<close>

theorem translateError_closes_plain_error_witness:
  "\<not> snd (FromError (New ''pubsub: Receive already in progress for this subscription'')) \<and>
   translateError (Some (New ''pubsub: Receive already in progress for this subscription''))
     ''receiving message from subscription %q failed'' [''test-subscription''] = Some ErrClosed"
  using translateError_closes_plain_error by simp

section \<open>Defaults at registration\<close>

text \<open>
  \<open>WithChannel\<close> fills a zero \<open>MaxRetryAge\<close> with two minutes;
  \<open>WithDeadLetter\<close> registers its channel with the \<open>MaxRetryAge\<close> it came with.
\<close>

lemma WithChannel_default:
  "WithChannel (Some c) s w = (r, w') \<Longrightarrow>
     (\<exists>s'. r = Inr s' \<and> Channels s' (ID (chans w c)) = Some c) \<and>
     MaxRetryAge (chans w' c) =
       (if MaxRetryAge (chans w c) = 0 then Minute * 2 else MaxRetryAge (chans w c))"
  by (auto simp: WithChannel_def addChannel_def Let_def)

lemma WithDeadLetter_no_default:
  "WithDeadLetter (Some c) s w = (r, w') \<Longrightarrow>
     (\<exists>s'. r = Inr s' \<and> DeadLetterChannel s' = Some c \<and> Channels s' (ID (chans w' c)) = Some c) \<and>
     MaxRetryAge (chans w' c) = MaxRetryAge (chans w c)"
  by (auto simp: WithDeadLetter_def addChannel_def Let_def)

text \<open>
  C4. The claim is that every channel registered with a zero \<open>MaxRetryAge\<close> gets
  the default of two minutes, the dead-letter channel included. After \<open>Configure\<close>
  with the options of the test fixture, none of which sets \<open>MaxRetryAge\<close>, the
  channel registered by \<open>WithChannel\<close> ends with two minutes and the dead-letter
  channel registered by \<open>WithDeadLetter\<close> ends with zero: the default is filled
  in by \<open>WithChannel\<close> and neither by \<open>WithDeadLetter\<close> nor by
  \<open>addChannel\<close>.
\<close>

theorem WithDeadLetter_leaves_MaxRetryAge_zero:
  "(case Configure [WithChannel (Some 0), WithChannel (Some 2), WithDeadLetter (Some 1)]
          (Inr (testClient None [])) (NewPubSubService ''metrix-io'') unregistered of
      (Inr s, w) \<Rightarrow>
        Channels s ''test-channel'' = Some 0 \<and> MaxRetryAge (chans w 0) = Minute * 2 \<and>
        Channels s ''dead-letter'' = Some 1 \<and> DeadLetterChannel s = Some 1 \<and>
        MaxRetryAge (chans w 1) = 0
    | (Inl p, w) \<Rightarrow> False)"
  by (simp add: Configure_def WithChannel_def WithDeadLetter_def addChannel_def
      NewPubSubService_def unregistered_def defaultDeadLetterName_def Let_def)

section \<open>Channel lookup\<close>

text \<open>
  C7, as stated, fails for the registry lookup itself: \<^verbatim>\<open>Service.Channel\<close> is a map
  read, and for an unknown ID it returns the nil pointer and no error.
\<close>

theorem Service_Channel_unknown_counterexample:
  "Service_Channel (testService None [] False) ''unknown'' = None"
  by (simp add: Service_Channel_def testService_def)

text \<open>
  C7, amended. For every unknown channel ID, \<open>Receive\<close>, \<open>ReceiveNr\<close>,
  \<open>PublishEvent\<close> and \<open>DeleteChannel\<close> return a not-found error and leave the
  store as it was (no call on the transport), while the lookup \<^verbatim>\<open>Service.Channel\<close>
  itself returns nil; and \<open>Receive\<close> on a registered channel whose
  \<open>SubscriptionID\<close> is empty returns a no-subscription error without opening a
  receive loop.
\<close>

theorem unknown_channel_not_found:
  "(Channels s channel = None \<longrightarrow>
      Service_Channel s channel = None \<and>
      Receive s channel f w = Some (Inr (Some (Errorf ''channel %q not found'' [channel])), w) \<and>
      ReceiveNr s channel n w = Some (Inr ([], Some (Errorf ''channel %q not found'' [channel])), w) \<and>
      PublishEvent s channel eventName payload w =
        (Inr (Some (Errorf ''channel %q not found'' [channel])), w) \<and>
      DeleteChannel s channel w = (Inr (Some (Errorf ''channel %q not found'' [channel])), w)) \<and>
   (\<forall>c. Channels s channel = Some c \<and> SubscriptionID (chans w c) = [] \<longrightarrow>
      Receive s channel f w =
        Some (Inr (Some (Errorf ''channel %q does not have a subscription'' [channel])), w))"
  by (simp add: Service_Channel_def Receive_def ReceiveNr_def PublishEvent_def DeleteChannel_def)

text \<open>The unknown channel and the channel without a subscription of the tests, with
  their empty handler.\<close>

theorem unknown_channel_not_found_witness:
  "Receive (testService None [] False) ''unknown'' (\<lambda>m w. w) (testWorld Map.empty 0) =
     Some (Inr (Some (Errorf ''channel %q not found'' [''unknown''])), testWorld Map.empty 0) \<and>
   ReceiveNr (testService None [] False) ''unknown'' 1 (testWorld Map.empty 0) =
     Some (Inr ([], Some (Errorf ''channel %q not found'' [''unknown''])), testWorld Map.empty 0) \<and>
   PublishEvent (testService None [] False) ''unknown'' ''ev1'' (Inr ''test message'') (testWorld Map.empty 0) =
     (Inr (Some (Errorf ''channel %q not found'' [''unknown''])), testWorld Map.empty 0) \<and>
   DeleteChannel (testService None [] False) ''unknown'' (testWorld Map.empty 0) =
     (Inr (Some (Errorf ''channel %q not found'' [''unknown''])), testWorld Map.empty 0) \<and>
   Receive (testService None [] False) ''without-subscription'' (\<lambda>m w. w) (testWorld Map.empty 0) =
     Some (Inr (Some (Errorf ''channel %q does not have a subscription'' [''without-subscription''])),
           testWorld Map.empty 0)"
  using unknown_channel_not_found[of "testService None [] False" "''unknown''" "\<lambda>m w. w"
      "testWorld Map.empty 0" 1 "''ev1''" "Inr ''test message''"]
    unknown_channel_not_found[of "testService None [] False" "''without-subscription''" "\<lambda>m w. w"
      "testWorld Map.empty 0" 1 "''ev1''" "Inr ''test message''"]
  by (simp add: testService_def testWorld_def testChannels_def)

section \<open>Receiving a number of messages\<close>

text \<open>
  The loop of \<open>ReceiveNr\<close>: with enough deliveries ahead it stops after the
  message that makes the count; with the end of the context ahead of that it returns
  what it has.
\<close>

lemma ReceiveNr_loop_enough:
  "int (length msgs) < n \<Longrightarrow> n \<le> int (length msgs + length ms) \<Longrightarrow>
   ReceiveNr_loop s c n (map Deliver ms @ rest) msgs w =
     Some ((msgs @ map (\<lambda>m. \<lparr>Message = Some m, Service = Some s, Channel = Some c\<rparr>)
                     (take (nat n - length msgs) ms), None),
           w\<lparr>trace := trace w @ map (\<lambda>m. Acked (MessageID m)) (take (nat n - length msgs) ms)\<rparr>)"
proof (induction ms arbitrary: msgs w)
  case Nil
  then show ?case by simp
next
  case (Cons m ms)
  show ?case
  proof (cases "n \<le> int (length msgs) + 1")
    case True
    with Cons.prems have "nat n - length msgs = 1" by linarith
    with True show ?thesis by (simp add: Let_def emit_def)
  next
    case False
    with Cons.prems have k: "nat n - length msgs = Suc (nat n - length (msgs @ [\<lparr>Message = Some m, Service = Some s, Channel = Some c\<rparr>]))"
      by simp
    from False Cons.prems
    have "ReceiveNr_loop s c n (map Deliver ms @ rest)
            (msgs @ [\<lparr>Message = Some m, Service = Some s, Channel = Some c\<rparr>])
            (emit (Acked (MessageID m)) w) =
          Some (((msgs @ [\<lparr>Message = Some m, Service = Some s, Channel = Some c\<rparr>]) @
                  map (\<lambda>m. \<lparr>Message = Some m, Service = Some s, Channel = Some c\<rparr>)
                     (take (nat n - length (msgs @ [\<lparr>Message = Some m, Service = Some s, Channel = Some c\<rparr>])) ms), None),
           (emit (Acked (MessageID m)) w)\<lparr>trace := trace (emit (Acked (MessageID m)) w) @
              map (\<lambda>m. Acked (MessageID m))
                (take (nat n - length (msgs @ [\<lparr>Message = Some m, Service = Some s, Channel = Some c\<rparr>])) ms)\<rparr>)"
      by (intro Cons.IH) auto
    with False show ?thesis
      unfolding k by (simp add: Let_def emit_def)
  qed
qed

lemma ReceiveNr_loop_short:
  "int (length msgs + length ms) < n \<Longrightarrow>
   ReceiveNr_loop s c n (map Deliver ms @ ContextDone # rest) msgs w =
     Some ((msgs @ map (\<lambda>m. \<lparr>Message = Some m, Service = Some s, Channel = Some c\<rparr>) ms, None),
           w\<lparr>trace := trace w @ map (\<lambda>m. Acked (MessageID m)) ms\<rparr>)"
proof (induction ms arbitrary: msgs w)
  case Nil
  then show ?case by simp
next
  case (Cons m ms)
  from Cons.prems
  have "ReceiveNr_loop s c n (map Deliver ms @ ContextDone # rest)
            (msgs @ [\<lparr>Message = Some m, Service = Some s, Channel = Some c\<rparr>])
            (emit (Acked (MessageID m)) w) =
          Some (((msgs @ [\<lparr>Message = Some m, Service = Some s, Channel = Some c\<rparr>]) @
                  map (\<lambda>m. \<lparr>Message = Some m, Service = Some s, Channel = Some c\<rparr>) ms, None),
           (emit (Acked (MessageID m)) w)\<lparr>trace := trace (emit (Acked (MessageID m)) w) @
              map (\<lambda>m. Acked (MessageID m)) ms\<rparr>)"
    by (intro Cons.IH) auto
  with Cons.prems show ?case by (simp add: Let_def emit_def)
qed

text \<open>
  C8, as stated, fails. \<open>ReceiveNr\<close> does not collect exactly \<open>count\<close> messages
  on every registered channel: when the caller's context ends first it returns the
  messages it has, as \<^verbatim>\<open>TestRetryableError_Success\<close> expects of the empty
  dead-letter channel (count 1, no message, no error).
\<close>

theorem ReceiveNr_timeout_counterexample:
  "map_option fst (ReceiveNr (testService None [ContextDone] True) ''dead-letter'' 1
                     (testWorld Map.empty 0)) = Some (Inr ([], None))"
  by (simp add: ReceiveNr_def testService_def testClient_def)

text \<open>
  C8, amended. For a registered channel of a connected service and a count of at
  least 1, deliveries being handled one at a time: if the subscription delivers at
  least \<open>count\<close> messages before its context ends or it fails, \<open>ReceiveNr\<close>
  acknowledges each of the first \<open>count\<close> messages as it is received, cancels its
  receive loop and returns exactly these messages and no error; if the caller's context
  ends after fewer than \<open>count\<close> messages, it returns the messages collected so
  far, each acknowledged, and no error.
\<close>

theorem ReceiveNr_collects:
  assumes "Channels s channel = Some c" and "Client s = Some client"
    and "1 \<le> n"
  shows "(\<forall>ms rest. receive client (SubscriptionID (chans w c)) = map Deliver ms @ rest \<and>
            n \<le> int (length ms) \<longrightarrow>
          ReceiveNr s channel n w =
            Some (Inr (map (\<lambda>m. \<lparr>Message = Some m, Service = Some s, Channel = Some c\<rparr>)
                         (take (nat n) ms), None),
                  w\<lparr>trace := trace w @ ReceiveStarted (SubscriptionID (chans w c)) #
                                map (\<lambda>m. Acked (MessageID m)) (take (nat n) ms)\<rparr>)) \<and>
         (\<forall>ms rest. receive client (SubscriptionID (chans w c)) = map Deliver ms @ ContextDone # rest \<and>
            int (length ms) < n \<longrightarrow>
          ReceiveNr s channel n w =
            Some (Inr (map (\<lambda>m. \<lparr>Message = Some m, Service = Some s, Channel = Some c\<rparr>) ms, None),
                  w\<lparr>trace := trace w @ ReceiveStarted (SubscriptionID (chans w c)) #
                                map (\<lambda>m. Acked (MessageID m)) ms\<rparr>))"
proof (intro conjI allI impI)
  fix ms rest
  assume h: "receive client (SubscriptionID (chans w c)) = map Deliver ms @ rest \<and> n \<le> int (length ms)"
  with assms(3)
  have "ReceiveNr_loop s c n (map Deliver ms @ rest) []
          (emit (ReceiveStarted (SubscriptionID (chans w c))) w) =
        Some (([] @ map (\<lambda>m. \<lparr>Message = Some m, Service = Some s, Channel = Some c\<rparr>)
                     (take (nat n - length ([]::RichMessage list)) ms), None),
           (emit (ReceiveStarted (SubscriptionID (chans w c))) w)
             \<lparr>trace := trace (emit (ReceiveStarted (SubscriptionID (chans w c))) w) @
                map (\<lambda>m. Acked (MessageID m)) (take (nat n - length ([]::RichMessage list)) ms)\<rparr>)"
    by (intro ReceiveNr_loop_enough) auto
  with assms h show "ReceiveNr s channel n w =
            Some (Inr (map (\<lambda>m. \<lparr>Message = Some m, Service = Some s, Channel = Some c\<rparr>)
                         (take (nat n) ms), None),
                  w\<lparr>trace := trace w @ ReceiveStarted (SubscriptionID (chans w c)) #
                                map (\<lambda>m. Acked (MessageID m)) (take (nat n) ms)\<rparr>)"
    by (simp add: ReceiveNr_def emit_def)
next
  fix ms rest
  assume h: "receive client (SubscriptionID (chans w c)) = map Deliver ms @ ContextDone # rest \<and>
            int (length ms) < n"
  then have "ReceiveNr_loop s c n (map Deliver ms @ ContextDone # rest) []
          (emit (ReceiveStarted (SubscriptionID (chans w c))) w) =
        Some (([] @ map (\<lambda>m. \<lparr>Message = Some m, Service = Some s, Channel = Some c\<rparr>) ms, None),
           (emit (ReceiveStarted (SubscriptionID (chans w c))) w)
             \<lparr>trace := trace (emit (ReceiveStarted (SubscriptionID (chans w c))) w) @
                map (\<lambda>m. Acked (MessageID m)) ms\<rparr>)"
    by (intro ReceiveNr_loop_short) auto
  with assms h show "ReceiveNr s channel n w =
            Some (Inr (map (\<lambda>m. \<lparr>Message = Some m, Service = Some s, Channel = Some c\<rparr>) ms, None),
                  w\<lparr>trace := trace w @ ReceiveStarted (SubscriptionID (chans w c)) #
                                map (\<lambda>m. Acked (MessageID m)) ms\<rparr>)"
    by (simp add: ReceiveNr_def emit_def)
qed


text \<open>
  Two messages on the test channel: asked for two, \<open>ReceiveNr\<close> returns both; asked
  for three, with the context ending after the second, it returns the same two.
\<close>

theorem ReceiveNr_collects_witness:
  "ReceiveNr (testService None [Deliver testMessage, Deliver testMessage2, ContextDone] False)
     ''test-channel'' 2 (testWorld Map.empty 0) =
   Some (Inr ([\<lparr>Message = Some testMessage,
                 Service = Some (testService None [Deliver testMessage, Deliver testMessage2, ContextDone] False),
                 Channel = Some 0\<rparr>,
               \<lparr>Message = Some testMessage2,
                 Service = Some (testService None [Deliver testMessage, Deliver testMessage2, ContextDone] False),
                 Channel = Some 0\<rparr>], None),
         (testWorld Map.empty 0)\<lparr>trace := [ReceiveStarted ''test-subscription'', Acked ''1'', Acked ''2'']\<rparr>) \<and>
   ReceiveNr (testService None [Deliver testMessage, Deliver testMessage2, ContextDone] False)
     ''test-channel'' 3 (testWorld Map.empty 0) =
   Some (Inr ([\<lparr>Message = Some testMessage,
                 Service = Some (testService None [Deliver testMessage, Deliver testMessage2, ContextDone] False),
                 Channel = Some 0\<rparr>,
               \<lparr>Message = Some testMessage2,
                 Service = Some (testService None [Deliver testMessage, Deliver testMessage2, ContextDone] False),
                 Channel = Some 0\<rparr>], None),
         (testWorld Map.empty 0)\<lparr>trace := [ReceiveStarted ''test-subscription'', Acked ''1'', Acked ''2'']\<rparr>)"
proof -
  let ?script = "[Deliver testMessage, Deliver testMessage2, ContextDone]"
  let ?s = "testService None ?script False"
  let ?w = "testWorld Map.empty 0"
  have c: "Channels ?s ''test-channel'' = Some 0" "Client ?s = Some (testClient None ?script)"
    by (simp_all add: testService_def)
  have r: "receive (testClient None ?script) (SubscriptionID (chans ?w 0)) =
             map Deliver [testMessage, testMessage2] @ ContextDone # []"
    by (simp add: testClient_def)
  have n: "(1::int) \<le> 2" "(1::int) \<le> 3" by simp_all
  from ReceiveNr_collects[OF c n(1), of ?w, THEN conjunct1, rule_format,
      of "[testMessage, testMessage2]" "[ContextDone]"] r
  have two: "ReceiveNr ?s ''test-channel'' 2 ?w =
     Some (Inr (map (\<lambda>m. \<lparr>Message = Some m, Service = Some ?s, Channel = Some 0\<rparr>)
                  (take (nat 2) [testMessage, testMessage2]), None),
           ?w\<lparr>trace := trace ?w @ ReceiveStarted (SubscriptionID (chans ?w 0)) #
                   map (\<lambda>m. Acked (MessageID m)) (take (nat 2) [testMessage, testMessage2])\<rparr>)"
    by simp
  from ReceiveNr_collects[OF c n(2), of ?w, THEN conjunct2, rule_format,
      of "[testMessage, testMessage2]" "[]"] r
  have three: "ReceiveNr ?s ''test-channel'' 3 ?w =
     Some (Inr (map (\<lambda>m. \<lparr>Message = Some m, Service = Some ?s, Channel = Some 0\<rparr>)
                  [testMessage, testMessage2], None),
           ?w\<lparr>trace := trace ?w @ ReceiveStarted (SubscriptionID (chans ?w 0)) #
                   map (\<lambda>m. Acked (MessageID m)) [testMessage, testMessage2]\<rparr>)"
    by simp
  have t: "trace ?w = []" "SubscriptionID (chans ?w 0) = ''test-subscription''"
    "MessageID testMessage = ''1''" "MessageID testMessage2 = ''2''"
    by (simp_all add: testWorld_def testChannels_def testMessage_def testMessage2_def)
  from two three show ?thesis
    by (simp add: t)
qed

end
